theory Spec2Isabelle
  imports Main
begin

section \<open>The nullable boolean of package zero (zero/bool.go)\<close>

subsection \<open>Data model\<close>

text \<open>
  The Go type is \<^verbatim>\<open>type Bool struct { sql.NullBool }\<close>: a struct whose only member is
  the embedded \<^verbatim>\<open>sql.NullBool { Bool bool; Valid bool }\<close>, so that \<^verbatim>\<open>b.Bool\<close> and
  \<^verbatim>\<open>b.Valid\<close> are the promoted fields of the embedded struct. The record below is
  that pair of fields; the embedded struct and the outer struct hold the same data.
\<close>

record NullBool =
  Bool :: bool
  Valid :: bool

type_synonym Bool = NullBool

text \<open>
  Errors are values. \<^verbatim>\<open>errors.New\<close> and \<^verbatim>\<open>fmt.Errorf\<close> build an error that carries
  its message text (\<open>ErrorString\<close>). The two errors that come out of the library
  \<^verbatim>\<open>encoding/json\<close> are kept apart: a syntax error of the first decode (its text is the
  library's own and is carried opaquely), and the type error that decoding into a
  struct with \<^verbatim>\<open>bool\<close> fields reports, which carries the JSON kind it met and the
  struct field it was decoding into.
\<close>

datatype error =
    ErrorString string
  | SyntaxError string
  | UnmarshalTypeError string string

subsection \<open>Construction\<close>

definition NewBool :: "bool \<Rightarrow> bool \<Rightarrow> Bool" where
  "NewBool b valid = \<lparr> Bool = b, Valid = valid \<rparr>"

definition BoolFrom :: "bool \<Rightarrow> Bool" where
  "BoolFrom b = NewBool b True"

text \<open>A \<^verbatim>\<open>*bool\<close> is \<open>None\<close> when nil.\<close>

definition BoolFromPtr :: "bool option \<Rightarrow> Bool" where
  "BoolFromPtr b = (case b of None \<Rightarrow> NewBool False False | Some x \<Rightarrow> NewBool x True)"

definition NewBoolFromString :: "string \<Rightarrow> bool \<Rightarrow> Bool" where
  "NewBoolFromString s valid =
     (if valid then
        (if s = [] then NewBool False False
         else if s = ''1'' \<or> s = ''true'' then NewBool True True
         else if s = ''0'' \<or> s = ''false'' then NewBool False True
         else NewBool False False)
      else NewBool False False)"

definition BoolFromString :: "string \<Rightarrow> Bool" where
  "BoolFromString s =
     (if s = [] then NewBool False True
      else if s = ''1'' \<or> s = ''true'' \<or> s = ''True'' \<or> s = ''TRUE'' then NewBool True True
      else if s = ''0'' \<or> s = ''false'' \<or> s = ''False'' \<or> s = ''FALSE'' then NewBool False True
      else NewBool False False)"

definition BoolFromStringExist :: "string \<Rightarrow> bool \<Rightarrow> Bool" where
  "BoolFromStringExist s b =
     (if s = [] \<or> b = False then NewBool False True else NewBool True True)"

subsection \<open>JSON documents as the library decodes them\<close>

text \<open>
  \<^verbatim>\<open>UnmarshalJSON\<close> hands its bytes to \<^verbatim>\<open>json.Unmarshal\<close> of the Go standard library,
  first with an \<^verbatim>\<open>interface{}\<close> target and, for an object, a second time with the
  embedded struct as target. The library is not part of the package; the model takes
  the bytes as what the library's scanner makes of them: either they are not a JSON
  text (\<open>Malformed\<close>, with the library's error text), or they are a document.

  A document decoded into \<^verbatim>\<open>interface{}\<close> has one of six dynamic Go types:
  \<^verbatim>\<open>nil\<close>, \<^verbatim>\<open>bool\<close>, \<^verbatim>\<open>float64\<close> (every number), \<^verbatim>\<open>string\<close>,
  \<^verbatim>\<open>[]interface{}\<close> and \<^verbatim>\<open>map[string]interface{}\<close>. A number keeps its literal
  text here; its numeric value is never looked at. An object keeps its members in
  document order, duplicates included, because the decode into a struct visits them
  in that order.
\<close>

datatype json =
    JNull
  | JBool bool
  | JNumber string
  | JString string
  | JArray "json list"
  | JObject "(string \<times> json) list"


text \<open>
  Decoding an object into \<^verbatim>\<open>sql.NullBool\<close>, as \<^verbatim>\<open>encoding/json\<close> documents it:
  a member's key selects the exported field of that name, by exact match or else
  ignoring case (the library upper-cases ASCII letters; no letter of \<^verbatim>\<open>Bool\<close> or
  \<^verbatim>\<open>Valid\<close> has a non-ASCII case variant); members with other keys are skipped;
  a boolean is stored; \<^verbatim>\<open>null\<close> leaves a \<^verbatim>\<open>bool\<close> field as it is; any other
  value records an \<^verbatim>\<open>UnmarshalTypeError\<close> naming the JSON kind met and the field,
  and decoding goes on with the next member; the first recorded error is returned.
\<close>

definition toUpper :: "char \<Rightarrow> char" where
  "toUpper c =
     (let n = (of_char c :: nat) in if 97 \<le> n \<and> n \<le> 122 then char_of (n - 32) else c)"

definition foldName :: "string \<Rightarrow> string" where
  "foldName key = map toUpper key"

datatype field = Field_Bool | Field_Valid

definition field_name :: "field \<Rightarrow> string" where
  "field_name f = (case f of Field_Bool \<Rightarrow> ''Bool'' | Field_Valid \<Rightarrow> ''Valid'')"

definition lookup_field :: "string \<Rightarrow> field option" where
  "lookup_field key =
     (if key = ''Bool'' then Some Field_Bool
      else if key = ''Valid'' then Some Field_Valid
      else if foldName key = ''BOOL'' then Some Field_Bool
      else if foldName key = ''VALID'' then Some Field_Valid
      else None)"

definition set_field :: "field \<Rightarrow> bool \<Rightarrow> NullBool \<Rightarrow> NullBool" where
  "set_field f x nb = (case f of Field_Bool \<Rightarrow> nb\<lparr>Bool := x\<rparr> | Field_Valid \<Rightarrow> nb\<lparr>Valid := x\<rparr>)"

definition saveError :: "error \<Rightarrow> error option \<Rightarrow> error option" where
  "saveError e saved = (case saved of None \<Rightarrow> Some e | Some e0 \<Rightarrow> Some e0)"

fun store_bool :: "field \<Rightarrow> json \<Rightarrow> error option \<times> NullBool \<Rightarrow> error option \<times> NullBool" where
  "store_bool f (JBool x) (saved, nb) = (saved, set_field f x nb)"
| "store_bool f JNull (saved, nb) = (saved, nb)"
| "store_bool f (JNumber n) (saved, nb) =
     (saveError (UnmarshalTypeError ''number'' (field_name f)) saved, nb)"
| "store_bool f (JString s) (saved, nb) =
     (saveError (UnmarshalTypeError ''string'' (field_name f)) saved, nb)"
| "store_bool f (JArray xs) (saved, nb) =
     (saveError (UnmarshalTypeError ''array'' (field_name f)) saved, nb)"
| "store_bool f (JObject kvs) (saved, nb) =
     (saveError (UnmarshalTypeError ''object'' (field_name f)) saved, nb)"

fun decode_members ::
  "(string \<times> json) list \<Rightarrow> error option \<times> NullBool \<Rightarrow> error option \<times> NullBool" where
  "decode_members [] st = st"
| "decode_members ((key, v) # kvs) st =
     decode_members kvs
       (case lookup_field key of None \<Rightarrow> st | Some f \<Rightarrow> store_bool f v st)"

definition Unmarshal_NullBool :: "(string \<times> json) list \<Rightarrow> NullBool \<Rightarrow> error option \<times> NullBool" where
  "Unmarshal_NullBool kvs nb = decode_members kvs (None, nb)"

subsection \<open>Parsing\<close>





definition UnmarshalText :: "string \<Rightarrow> Bool \<Rightarrow> error option \<times> Bool" where
  "UnmarshalText text b =
     (let str = text in
      if str = [] \<or> str = ''null'' then (None, b\<lparr>Valid := False\<rparr>)
      else if str = ''true'' then
        (let b1 = b\<lparr>Bool := True\<rparr> in (None, b1\<lparr>Valid := Bool b1\<rparr>))
      else if str = ''false'' then
        (let b1 = b\<lparr>Bool := False\<rparr> in (None, b1\<lparr>Valid := Bool b1\<rparr>))
      else (Some (ErrorString (''invalid input:'' @ str)), b\<lparr>Valid := False\<rparr>))"

subsection \<open>Serialization\<close>

text \<open>Both methods return the Go pair \<^verbatim>\<open>([]byte, error)\<close>; \<open>None\<close> is the nil error.\<close>

definition MarshalJSON :: "Bool \<Rightarrow> string \<times> error option" where
  "MarshalJSON b = (if \<not> Valid b \<or> \<not> Bool b then (''false'', None) else (''true'', None))"

definition MarshalText :: "Bool \<Rightarrow> string \<times> error option" where
  "MarshalText b = (if \<not> Valid b \<or> \<not> Bool b then (''false'', None) else (''true'', None))"

subsection \<open>Accessors and mutation\<close>

text \<open>A method with a pointer receiver takes the receiver and returns it updated.\<close>

definition SetValid :: "bool \<Rightarrow> Bool \<Rightarrow> Bool" where
  "SetValid v b = (b\<lparr>Bool := v\<rparr>)\<lparr>Valid := True\<rparr>"

definition Ptr :: "Bool \<Rightarrow> bool option" where
  "Ptr b = (if \<not> Valid b then None else Some (Bool b))"

definition IsZero :: "Bool \<Rightarrow> bool" where
  "IsZero b = (\<not> Valid b \<or> \<not> Bool b)"

definition OverwriteWithIfValid :: "bool \<Rightarrow> bool \<Rightarrow> Bool \<Rightarrow> Bool" where
  "OverwriteWithIfValid st v s = (if v then (s\<lparr>Bool := st\<rparr>)\<lparr>Valid := v\<rparr> else s)"

subsection \<open>Boolean operators\<close>

text \<open>
  \<^verbatim>\<open>result := Bool{NullBool: sql.NullBool{}}\<close> is the zero value: both fields false.
\<close>

definition zero_Bool :: Bool where
  "zero_Bool = \<lparr> Bool = False, Valid = False \<rparr>"

definition AND :: "Bool \<Rightarrow> Bool \<Rightarrow> Bool" where
  "AND s other =
     (let result = zero_Bool in
      if Valid s \<and> Valid other
      then (result\<lparr>Bool := Bool s \<and> Bool other\<rparr>)\<lparr>Valid := True\<rparr>
      else result\<lparr>Valid := False\<rparr>)"

definition OR :: "Bool \<Rightarrow> Bool \<Rightarrow> Bool" where
  "OR s other =
     (let result = zero_Bool in
      if Valid s \<and> Valid other
      then (result\<lparr>Bool := Bool s \<or> Bool other\<rparr>)\<lparr>Valid := True\<rparr>
      else result\<lparr>Valid := False\<rparr>)"

definition NON :: "Bool \<Rightarrow> Bool" where
  "NON s = (if Valid s then s\<lparr>Bool := \<not> Bool s\<rparr> else s)"

definition XOR :: "Bool \<Rightarrow> Bool \<Rightarrow> Bool" where
  "XOR s other =
     (let result = zero_Bool; x = Bool s; y = Bool other in
      if Valid s \<and> Valid other
      then (result\<lparr>Bool := (x \<or> y) \<and> \<not> (x \<and> y)\<rparr>)\<lparr>Valid := True\<rparr>
      else result\<lparr>Valid := False\<rparr>)"

section \<open>Properties\<close>

subsection \<open>Serialization\<close>

text \<open>
  C1: for every value, \<^verbatim>\<open>MarshalJSON\<close> and \<^verbatim>\<open>MarshalText\<close> both return a nil error;
  both return the bytes \<^verbatim>\<open>false\<close> when the value is invalid or its \<^verbatim>\<open>Bool\<close> is false,
  and the bytes \<^verbatim>\<open>true\<close> otherwise; neither ever returns the token \<^verbatim>\<open>null\<close>.
\<close>

theorem Marshal_true_or_false:
  "(\<not> Valid b \<or> \<not> Bool b \<longrightarrow>
      MarshalJSON b = (''false'', None) \<and> MarshalText b = (''false'', None))
   \<and> (Valid b \<and> Bool b \<longrightarrow>
      MarshalJSON b = (''true'', None) \<and> MarshalText b = (''true'', None))
   \<and> snd (MarshalJSON b) = None \<and> snd (MarshalText b) = None
   \<and> fst (MarshalJSON b) \<noteq> ''null'' \<and> fst (MarshalText b) \<noteq> ''null''"
  by (simp add: MarshalJSON_def MarshalText_def)

theorem Marshal_true_or_false_witness:
  "MarshalJSON \<lparr>Bool = True, Valid = True\<rparr> = (''true'', None)
   \<and> MarshalText \<lparr>Bool = True, Valid = True\<rparr> = (''true'', None)
   \<and> MarshalJSON \<lparr>Bool = True, Valid = False\<rparr> = (''false'', None)
   \<and> MarshalText \<lparr>Bool = True, Valid = False\<rparr> = (''false'', None)
   \<and> MarshalJSON \<lparr>Bool = False, Valid = True\<rparr> = (''false'', None)
   \<and> MarshalText \<lparr>Bool = False, Valid = True\<rparr> = (''false'', None)"
  using Marshal_true_or_false [of "\<lparr>Bool = True, Valid = True\<rparr>"]
    Marshal_true_or_false [of "\<lparr>Bool = True, Valid = False\<rparr>"]
    Marshal_true_or_false [of "\<lparr>Bool = False, Valid = True\<rparr>"]
  by simp

subsection \<open>Parsing a JSON document\<close>



text \<open>
  The struct decode at work: keys match ignoring case, a later member overwrites an
  earlier one, \<^verbatim>\<open>null\<close> stores nothing, and a value of the wrong kind is reported
  while the other members are still stored.
\<close>

lemma Unmarshal_NullBool_examples:
  "Unmarshal_NullBool [(''bool'', JBool True), (''VALID'', JBool True), (''other'', JNumber ''1'')]
     \<lparr>Bool = False, Valid = False\<rparr> = (None, \<lparr>Bool = True, Valid = True\<rparr>)"
  "Unmarshal_NullBool [(''Bool'', JBool True), (''Bool'', JBool False), (''Valid'', JNull)]
     \<lparr>Bool = False, Valid = True\<rparr> = (None, \<lparr>Bool = False, Valid = True\<rparr>)"
  "Unmarshal_NullBool [(''Valid'', JString ''yes''), (''Bool'', JBool True)]
     \<lparr>Bool = False, Valid = False\<rparr>
     = (Some (UnmarshalTypeError ''string'' ''Valid''), \<lparr>Bool = True, Valid = False\<rparr>)"
  by code_simp+








subsection \<open>Parsing text\<close>

text \<open>
  C3: \<^verbatim>\<open>UnmarshalText\<close> returns no error exactly on the empty text, \<^verbatim>\<open>null\<close>,
  \<^verbatim>\<open>true\<close> and \<^verbatim>\<open>false\<close>. The empty text and \<^verbatim>\<open>null\<close> set \<^verbatim>\<open>Valid\<close> to false;
  \<^verbatim>\<open>true\<close> gives the valid true value; \<^verbatim>\<open>false\<close> gives \<^verbatim>\<open>Bool\<close> false and \<^verbatim>\<open>Valid\<close>
  false. Any other text returns the error \<^verbatim>\<open>invalid input:\<close> followed by the text, and
  sets \<^verbatim>\<open>Valid\<close> to false.
\<close>

theorem UnmarshalText_cases:
  "(fst (UnmarshalText t b) = None \<longleftrightarrow> t \<in> {[], ''null'', ''true'', ''false''})
   \<and> UnmarshalText [] b = (None, b\<lparr>Valid := False\<rparr>)
   \<and> UnmarshalText ''null'' b = (None, b\<lparr>Valid := False\<rparr>)
   \<and> UnmarshalText ''true'' b = (None, \<lparr>Bool = True, Valid = True\<rparr>)
   \<and> UnmarshalText ''false'' b = (None, \<lparr>Bool = False, Valid = False\<rparr>)
   \<and> (t \<notin> {[], ''null'', ''true'', ''false''} \<longrightarrow>
        UnmarshalText t b = (Some (ErrorString (''invalid input:'' @ t)), b\<lparr>Valid := False\<rparr>))"
  by (simp add: UnmarshalText_def)

theorem UnmarshalText_cases_witness:
  "''maybe'' \<notin> {[], ''null'', ''true'', ''false''}
   \<and> UnmarshalText ''maybe'' \<lparr>Bool = True, Valid = True\<rparr>
       = (Some (ErrorString ''invalid input:maybe''), \<lparr>Bool = True, Valid = False\<rparr>)
   \<and> UnmarshalText ''false'' \<lparr>Bool = True, Valid = True\<rparr>
       = (None, \<lparr>Bool = False, Valid = False\<rparr>)"
  using UnmarshalText_cases [of "''maybe''" "\<lparr>Bool = True, Valid = True\<rparr>"]
  by simp

subsection \<open>Construction from strings\<close>

text \<open>
  C5: \<^verbatim>\<open>BoolFromString\<close> returns (false, valid) for the empty string, (true, valid)
  for \<^verbatim>\<open>1\<close>, \<^verbatim>\<open>true\<close>, \<^verbatim>\<open>True\<close>, \<^verbatim>\<open>TRUE\<close>, (false, valid) for \<^verbatim>\<open>0\<close>, \<^verbatim>\<open>false\<close>,
  \<^verbatim>\<open>False\<close>, \<^verbatim>\<open>FALSE\<close>, and (false, invalid) for every other string.
\<close>

theorem BoolFromString_table:
  "BoolFromString [] = \<lparr>Bool = False, Valid = True\<rparr>
   \<and> (s \<in> {''1'', ''true'', ''True'', ''TRUE''} \<longrightarrow>
        BoolFromString s = \<lparr>Bool = True, Valid = True\<rparr>)
   \<and> (s \<in> {''0'', ''false'', ''False'', ''FALSE''} \<longrightarrow>
        BoolFromString s = \<lparr>Bool = False, Valid = True\<rparr>)
   \<and> (s \<notin> {[], ''1'', ''true'', ''True'', ''TRUE'', ''0'', ''false'', ''False'', ''FALSE''} \<longrightarrow>
        BoolFromString s = \<lparr>Bool = False, Valid = False\<rparr>)"
  by (auto simp: BoolFromString_def NewBool_def)

theorem BoolFromString_table_witness:
  "BoolFromString [] = \<lparr>Bool = False, Valid = True\<rparr>
   \<and> BoolFromString ''TRUE'' = \<lparr>Bool = True, Valid = True\<rparr>
   \<and> BoolFromString ''False'' = \<lparr>Bool = False, Valid = True\<rparr>
   \<and> BoolFromString ''yes'' = \<lparr>Bool = False, Valid = False\<rparr>"
  using BoolFromString_table [of "''TRUE''"] BoolFromString_table [of "''False''"]
    BoolFromString_table [of "''yes''"]
  by simp

text \<open>
  C6: \<^verbatim>\<open>NewBoolFromString\<close> returns (false, invalid) whenever the requested validity is
  false. When it is true: the empty string gives (false, invalid); \<^verbatim>\<open>1\<close> and \<^verbatim>\<open>true\<close>
  give (true, valid); \<^verbatim>\<open>0\<close> and \<^verbatim>\<open>false\<close> give (false, valid); every other string,
  \<^verbatim>\<open>True\<close> among them, gives (false, invalid).
\<close>

theorem NewBoolFromString_table:
  "NewBoolFromString s False = \<lparr>Bool = False, Valid = False\<rparr>
   \<and> NewBoolFromString [] True = \<lparr>Bool = False, Valid = False\<rparr>
   \<and> (s \<in> {''1'', ''true''} \<longrightarrow> NewBoolFromString s True = \<lparr>Bool = True, Valid = True\<rparr>)
   \<and> (s \<in> {''0'', ''false''} \<longrightarrow> NewBoolFromString s True = \<lparr>Bool = False, Valid = True\<rparr>)
   \<and> (s \<notin> {[], ''1'', ''true'', ''0'', ''false''} \<longrightarrow>
        NewBoolFromString s True = \<lparr>Bool = False, Valid = False\<rparr>)
   \<and> NewBoolFromString ''True'' True = \<lparr>Bool = False, Valid = False\<rparr>"
  by (auto simp: NewBoolFromString_def NewBool_def)

theorem NewBoolFromString_table_witness:
  "NewBoolFromString ''true'' False = \<lparr>Bool = False, Valid = False\<rparr>
   \<and> NewBoolFromString ''true'' True = \<lparr>Bool = True, Valid = True\<rparr>
   \<and> NewBoolFromString ''0'' True = \<lparr>Bool = False, Valid = True\<rparr>
   \<and> NewBoolFromString ''TRUE'' True = \<lparr>Bool = False, Valid = False\<rparr>"
  using NewBoolFromString_table [of "''true''"] NewBoolFromString_table [of "''0''"]
    NewBoolFromString_table [of "''TRUE''"]
  by simp

subsection \<open>Boolean operators\<close>

text \<open>
  C4: if either operand is invalid, \<^verbatim>\<open>AND\<close>, \<^verbatim>\<open>OR\<close> and \<^verbatim>\<open>XOR\<close> each return
  (false, invalid); if both are valid, each returns a valid value whose \<^verbatim>\<open>Bool\<close> is
  the conjunction, the disjunction, and \<^verbatim>\<open>(x || y) && !(x && y)\<close> of the operands'.
\<close>

theorem AND_OR_XOR_table:
  "(\<not> Valid a \<or> \<not> Valid b \<longrightarrow>
      AND a b = \<lparr>Bool = False, Valid = False\<rparr>
      \<and> OR a b = \<lparr>Bool = False, Valid = False\<rparr>
      \<and> XOR a b = \<lparr>Bool = False, Valid = False\<rparr>)
   \<and> (Valid a \<and> Valid b \<longrightarrow>
      AND a b = \<lparr>Bool = (Bool a \<and> Bool b), Valid = True\<rparr>
      \<and> OR a b = \<lparr>Bool = (Bool a \<or> Bool b), Valid = True\<rparr>
      \<and> XOR a b = \<lparr>Bool = ((Bool a \<or> Bool b) \<and> \<not> (Bool a \<and> Bool b)), Valid = True\<rparr>)"
  by (simp add: AND_def OR_def XOR_def zero_Bool_def Let_def)

theorem AND_OR_XOR_table_witness:
  "AND \<lparr>Bool = True, Valid = False\<rparr> \<lparr>Bool = True, Valid = True\<rparr> = \<lparr>Bool = False, Valid = False\<rparr>
   \<and> OR \<lparr>Bool = True, Valid = False\<rparr> \<lparr>Bool = True, Valid = True\<rparr> = \<lparr>Bool = False, Valid = False\<rparr>
   \<and> XOR \<lparr>Bool = True, Valid = False\<rparr> \<lparr>Bool = True, Valid = True\<rparr> = \<lparr>Bool = False, Valid = False\<rparr>
   \<and> AND \<lparr>Bool = True, Valid = True\<rparr> \<lparr>Bool = False, Valid = True\<rparr> = \<lparr>Bool = False, Valid = True\<rparr>
   \<and> OR \<lparr>Bool = True, Valid = True\<rparr> \<lparr>Bool = False, Valid = True\<rparr> = \<lparr>Bool = True, Valid = True\<rparr>
   \<and> XOR \<lparr>Bool = True, Valid = True\<rparr> \<lparr>Bool = False, Valid = True\<rparr> = \<lparr>Bool = True, Valid = True\<rparr>"
  using AND_OR_XOR_table [of "\<lparr>Bool = True, Valid = False\<rparr>" "\<lparr>Bool = True, Valid = True\<rparr>"]
    AND_OR_XOR_table [of "\<lparr>Bool = True, Valid = True\<rparr>" "\<lparr>Bool = False, Valid = True\<rparr>"]
  by simp

text \<open>
  C8: \<^verbatim>\<open>NON\<close> on an invalid receiver leaves both fields as they were; on a valid
  receiver it negates \<^verbatim>\<open>Bool\<close> and leaves \<^verbatim>\<open>Valid\<close> true.
\<close>

theorem NON_frame:
  "(\<not> Valid b \<longrightarrow> NON b = b)
   \<and> (Valid b \<longrightarrow> NON b = \<lparr>Bool = (\<not> Bool b), Valid = True\<rparr>)"
  by (simp add: NON_def)

theorem NON_frame_witness:
  "NON \<lparr>Bool = True, Valid = False\<rparr> = \<lparr>Bool = True, Valid = False\<rparr>
   \<and> NON \<lparr>Bool = True, Valid = True\<rparr> = \<lparr>Bool = False, Valid = True\<rparr>"
  using NON_frame [of "\<lparr>Bool = True, Valid = False\<rparr>"] NON_frame [of "\<lparr>Bool = True, Valid = True\<rparr>"]
  by simp

text \<open>
  C10: \<^verbatim>\<open>NON\<close> called twice restores the receiver, both fields, valid or not.
\<close>

theorem NON_twice:
  "NON (NON b) = b"
  by (simp add: NON_def)

theorem NON_twice_witness:
  "NON (NON \<lparr>Bool = True, Valid = True\<rparr>) = \<lparr>Bool = True, Valid = True\<rparr>
   \<and> NON (NON \<lparr>Bool = True, Valid = False\<rparr>) = \<lparr>Bool = True, Valid = False\<rparr>"
  using NON_twice [of "\<lparr>Bool = True, Valid = True\<rparr>"] NON_twice [of "\<lparr>Bool = True, Valid = False\<rparr>"]
  by simp


end
